theory Spec2Isabelle
  imports Main "HOL-Library.Sublist"
begin

section \<open>Data model of \<open>mod.ts\<close>\<close>

text \<open>
  A property of a JavaScript object is either present with a value or absent, in which
  case reading it yields \<open>undefined\<close>.  An optional property is modelled by an
  \<open>option\<close>: \<open>None\<close> is the absent property.

  The declared parameter type \<open>Partial<ComplianceChecklist>\<close> makes the three
  sub-records optional and leaves the five flags of a supplied sub-record required
  booleans.  The flags are modelled as \<open>bool option\<close> all the same, so that the
  checklists "present with zero or more of its named boolean flags set" can be written
  down and the code's answer on them computed; the checklists admitted by the declared
  type are those whose supplied sub-records have every flag \<open>Some b\<close>.
\<close>

type_synonym flag = "bool option"

text \<open>\<open>interface UnixPrinciples\<close>, as the \<open>Partial<UnixPrinciples>\<close> that
  \<open>checkUnixCompliance\<close> returns.  The fields \<open>composable\<close> and \<open>minimalOutput\<close>
  carry a suffix because the checklist below declares flags of the same names.\<close>

record UnixPrinciples =
  doOneThingWell :: flag
  composable_principle :: flag
  textBased :: flag
  explicitNotMagic :: flag
  minimalOutput_principle :: flag
  securityFirst :: flag
  leverageExisting :: flag

text \<open>\<open>interface ADR\<close>.  The fields \<open>id\<close> and \<open>context\<close> carry a suffix: the
  first is a constant of HOL, the second a keyword of Isabelle.\<close>

datatype ADRStatus = PROPOSED | ACCEPTED | DEPRECATED | SUPERSEDED

record Consequences =
  positive :: "string list"
  negative :: "string list"
  mitigation :: "string list option"

record ADR =
  id_adr :: string
  title :: string
  status :: ADRStatus
  context_adr :: string
  decision :: string
  rationale :: string
  alternatives :: "string list"
  consequences :: Consequences
  related :: "string list"
  reviewDate :: "string option"

text \<open>\<open>interface ComplianceChecklist\<close>: three sub-records of five flags each.\<close>

record UnixPhilosophyFlags =
  singleResponsibility :: flag
  composable :: flag
  textBasedConfig :: flag
  explicitDependencies :: flag
  minimalOutput :: flag

record SecurityFlags =
  explicitPermissions :: flag
  inputValidation :: flag
  parameterizedQueries :: flag
  multiTenantIsolation :: flag
  defenseInDepth :: flag

record ArchitectureFlags =
  followsHubSpoke :: flag
  adrCreated :: flag
  testsIncluded :: flag
  documentationUpdated :: flag
  performanceConsidered :: flag

record ComplianceChecklist =
  unixPhilosophy :: "UnixPhilosophyFlags option"
  security :: "SecurityFlags option"
  architecture :: "ArchitectureFlags option"

text \<open>The return type \<open>{ valid: boolean; violations: string[] }\<close>.\<close>

record ValidationResult =
  valid :: bool
  violations :: "string list"

section \<open>The JavaScript operations the functions use\<close>

text \<open>
  None of the three functions has a \<open>throw\<close>.  The one run-time failure their
  statements can have is the \<open>TypeError\<close> that JavaScript raises when a property is
  read from \<open>undefined\<close>; it is a value of the model, so that the guards of
  \<open>validateCompliance\<close> have something to prevent.
\<close>

datatype error = TypeError

definition bind_res :: "error + 'a \<Rightarrow> ('a \<Rightarrow> error + 'b) \<Rightarrow> error + 'b" where
  "bind_res r k = (case r of Inl e \<Rightarrow> Inl e | Inr x \<Rightarrow> k x)"

text \<open>\<open>obj.field\<close>, where \<open>obj\<close> may be \<open>undefined\<close>.\<close>

definition read_prop :: "'r option \<Rightarrow> ('r \<Rightarrow> 'v) \<Rightarrow> error + 'v" where
  "read_prop obj field = (case obj of None \<Rightarrow> Inl TypeError | Some r \<Rightarrow> Inr (field r))"

text \<open>The condition \<open>if (obj)\<close>: an object is truthy, \<open>undefined\<close> is falsy.\<close>

definition truthy :: "'r option \<Rightarrow> bool" where
  "truthy obj = (case obj of None \<Rightarrow> False | Some r \<Rightarrow> True)"

text \<open>The operator \<open>!\<close> on a flag: \<open>!undefined\<close> and \<open>!false\<close> are \<open>true\<close>.\<close>

definition js_not :: "flag \<Rightarrow> bool" where
  "js_not v = (case v of None \<Rightarrow> True | Some b \<Rightarrow> \<not> b)"

text \<open>\<open>violations.push(msg)\<close>: the message goes to the end of the array.\<close>

definition push :: "string list \<Rightarrow> string \<Rightarrow> string list" where
  "push vs msg = vs @ [msg]"

text \<open>The statement \<open>if (!obj.field) violations.push(msg);\<close>.\<close>

definition check_flag ::
  "'r option \<Rightarrow> ('r \<Rightarrow> flag) \<Rightarrow> string \<Rightarrow> string list \<Rightarrow> error + string list" where
  "check_flag obj field msg vs =
     bind_res (read_prop obj field) (\<lambda>v. Inr (if js_not v then push vs msg else vs))"

section \<open>\<open>checkUnixCompliance\<close>\<close>

text \<open>The parameter \<open>module: Record<string, unknown>\<close> is a map from property names to
  values of any type; the body does not read it.\<close>

definition checkUnixCompliance :: "(string \<rightharpoonup> 'a) \<Rightarrow> UnixPrinciples" where
  "checkUnixCompliance module =
     \<lparr> doOneThingWell = Some True,
       composable_principle = Some True,
       textBased = Some True,
       explicitNotMagic = Some True,
       minimalOutput_principle = Some True,
       securityFirst = Some True,
       leverageExisting = Some True \<rparr>"

section \<open>\<open>validateCompliance\<close>\<close>

text \<open>The three blocks of the body, each taking the \<open>violations\<close> array as it stands
  and returning it as the block leaves it.\<close>

definition check_unixPhilosophy ::
  "ComplianceChecklist \<Rightarrow> string list \<Rightarrow> error + string list" where
  "check_unixPhilosophy checklist vs0 =
     (if truthy (unixPhilosophy checklist) then
        (let up = unixPhilosophy checklist in
         bind_res (check_flag up singleResponsibility ''Module lacks single responsibility'' vs0) (\<lambda>vs1.
         bind_res (check_flag up composable ''Module is not composable'' vs1) (\<lambda>vs2.
         bind_res (check_flag up textBasedConfig ''Configuration is not text-based'' vs2) (\<lambda>vs3.
         bind_res (check_flag up explicitDependencies ''Dependencies are not explicit'' vs3) (\<lambda>vs4.
         check_flag up minimalOutput ''Output is not minimal by default'' vs4)))))
      else Inr vs0)"

definition check_security ::
  "ComplianceChecklist \<Rightarrow> string list \<Rightarrow> error + string list" where
  "check_security checklist vs0 =
     (if truthy (security checklist) then
        (let sec = security checklist in
         bind_res (check_flag sec explicitPermissions ''Permissions are not explicit'' vs0) (\<lambda>vs1.
         bind_res (check_flag sec inputValidation ''Input validation is missing'' vs1) (\<lambda>vs2.
         bind_res (check_flag sec parameterizedQueries ''Queries are not parameterized'' vs2) (\<lambda>vs3.
         bind_res (check_flag sec multiTenantIsolation ''Multi-tenant isolation is missing'' vs3) (\<lambda>vs4.
         check_flag sec defenseInDepth ''Defense-in-depth not implemented'' vs4)))))
      else Inr vs0)"

definition check_architecture ::
  "ComplianceChecklist \<Rightarrow> string list \<Rightarrow> error + string list" where
  "check_architecture checklist vs0 =
     (if truthy (architecture checklist) then
        (let arch = architecture checklist in
         bind_res (check_flag arch followsHubSpoke ''Doesn't follow hub-and-spoke pattern'' vs0) (\<lambda>vs1.
         bind_res (check_flag arch adrCreated ''ADR not created for architectural change'' vs1) (\<lambda>vs2.
         bind_res (check_flag arch testsIncluded ''Tests not included'' vs2) (\<lambda>vs3.
         bind_res (check_flag arch documentationUpdated ''Documentation not updated'' vs3) (\<lambda>vs4.
         check_flag arch performanceConsidered ''Performance not considered'' vs4)))))
      else Inr vs0)"

definition validateCompliance :: "ComplianceChecklist \<Rightarrow> error + ValidationResult" where
  "validateCompliance checklist =
     bind_res (check_unixPhilosophy checklist []) (\<lambda>vs1.
     bind_res (check_security checklist vs1) (\<lambda>vs2.
     bind_res (check_architecture checklist vs2) (\<lambda>vs3.
     Inr \<lparr> valid = (length vs3 = 0), violations = vs3 \<rparr>)))"

section \<open>\<open>createADR\<close>\<close>

text \<open>The object literal sets neither \<open>consequences.mitigation\<close> nor \<open>reviewDate\<close>.\<close>

definition createADR :: "string \<Rightarrow> string \<Rightarrow> ADR" where
  "createADR i t =
     \<lparr> id_adr = i,
       title = t,
       status = PROPOSED,
       context_adr = [],
       decision = [],
       rationale = [],
       alternatives = [],
       consequences = \<lparr> positive = [], negative = [], mitigation = None \<rparr>,
       related = [],
       reviewDate = None \<rparr>"

text \<open>
  A call of a JavaScript function runs in a state that is not among its arguments: the
  body may read the clock (\<open>Date.now()\<close>) and may read or write a variable of the
  module.  A factory that stamped its records with the time, or numbered them from a
  counter, would do so through this state.  \<open>Ambient\<close> holds the two: the clock, and a
  module-level counter.

  \<open>createADR_call\<close> is the call of \<open>createADR\<close> with that state made explicit: it
  takes the state in which the call starts and returns the ADR together with the state
  in which the call ends.  The body, lines 159 to 172, is the object literal alone: no
  field of it is computed from the clock or from a module variable, and no statement
  assigns to one, so the state is handed back as it came.
\<close>

record Ambient =
  clock :: int
  counter :: nat

definition createADR_call :: "Ambient \<Rightarrow> string \<Rightarrow> string \<Rightarrow> ADR \<times> Ambient" where
  "createADR_call w i t =
     (\<lparr> id_adr = i,
        title = t,
        status = PROPOSED,
        context_adr = [],
        decision = [],
        rationale = [],
        alternatives = [],
        consequences = \<lparr> positive = [], negative = [], mitigation = None \<rparr>,
        related = [],
        reviewDate = None \<rparr>,
      w)"

section \<open>The flags and their messages, as a table\<close>

text \<open>
  The specification describes the validator as a walk over the flags in declaration
  order, appending "one fixed violation message associated with that flag" for every
  falsy flag of a sub-record that is present.  The three tables pair each flag with the
  message of its \<open>push\<close> in the source, in the order of the source's statements;
  \<open>spec_violations\<close> is the walk in the specification's words, and \<open>violations_of\<close>
  runs it over the three categories in the order Unix philosophy, security, architecture.
  They are compared with \<open>validateCompliance\<close> below.
\<close>

definition unixPhilosophy_flags :: "((UnixPhilosophyFlags \<Rightarrow> flag) \<times> string) list" where
  "unixPhilosophy_flags =
     [(singleResponsibility, ''Module lacks single responsibility''),
      (composable, ''Module is not composable''),
      (textBasedConfig, ''Configuration is not text-based''),
      (explicitDependencies, ''Dependencies are not explicit''),
      (minimalOutput, ''Output is not minimal by default'')]"

definition security_flags :: "((SecurityFlags \<Rightarrow> flag) \<times> string) list" where
  "security_flags =
     [(explicitPermissions, ''Permissions are not explicit''),
      (inputValidation, ''Input validation is missing''),
      (parameterizedQueries, ''Queries are not parameterized''),
      (multiTenantIsolation, ''Multi-tenant isolation is missing''),
      (defenseInDepth, ''Defense-in-depth not implemented'')]"

definition architecture_flags :: "((ArchitectureFlags \<Rightarrow> flag) \<times> string) list" where
  "architecture_flags =
     [(followsHubSpoke, ''Doesn't follow hub-and-spoke pattern''),
      (adrCreated, ''ADR not created for architectural change''),
      (testsIncluded, ''Tests not included''),
      (documentationUpdated, ''Documentation not updated''),
      (performanceConsidered, ''Performance not considered'')]"

text \<open>The fifteen messages in the order of their \<open>push\<close> statements.\<close>

definition all_messages :: "string list" where
  "all_messages =
     [''Module lacks single responsibility'',
      ''Module is not composable'',
      ''Configuration is not text-based'',
      ''Dependencies are not explicit'',
      ''Output is not minimal by default'',
      ''Permissions are not explicit'',
      ''Input validation is missing'',
      ''Queries are not parameterized'',
      ''Multi-tenant isolation is missing'',
      ''Defense-in-depth not implemented'',
      ''Doesn't follow hub-and-spoke pattern'',
      ''ADR not created for architectural change'',
      ''Tests not included'',
      ''Documentation not updated'',
      ''Performance not considered'']"

fun spec_violations :: "(('r \<Rightarrow> flag) \<times> string) list \<Rightarrow> 'r option \<Rightarrow> string list" where
  "spec_violations tbl None = []"
| "spec_violations tbl (Some r) = map snd (filter (\<lambda>(field, msg). js_not (field r)) tbl)"

definition violations_of :: "ComplianceChecklist \<Rightarrow> string list" where
  "violations_of c =
     spec_violations unixPhilosophy_flags (unixPhilosophy c) @
     spec_violations security_flags (security c) @
     spec_violations architecture_flags (architecture c)"

section \<open>The code computes the table walk and never raises\<close>

lemma bind_res_Inr: "bind_res (Inr x) k = k x"
  by (simp add: bind_res_def)

lemma check_flag_Some:
  "check_flag (Some r) field msg vs = Inr (vs @ (if js_not (field r) then [msg] else []))"
  by (simp add: check_flag_def read_prop_def bind_res_def push_def)

lemma check_unixPhilosophy_eq:
  "check_unixPhilosophy c vs = Inr (vs @ spec_violations unixPhilosophy_flags (unixPhilosophy c))"
proof (cases "unixPhilosophy c")
  case None
  then show ?thesis by (simp add: check_unixPhilosophy_def truthy_def)
next
  case (Some up)
  then show ?thesis
    by (simp add: check_unixPhilosophy_def truthy_def check_flag_Some bind_res_Inr
        unixPhilosophy_flags_def)
qed

lemma check_security_eq:
  "check_security c vs = Inr (vs @ spec_violations security_flags (security c))"
proof (cases "security c")
  case None
  then show ?thesis by (simp add: check_security_def truthy_def)
next
  case (Some sec)
  then show ?thesis
    by (simp add: check_security_def truthy_def check_flag_Some bind_res_Inr
        security_flags_def)
qed

lemma check_architecture_eq:
  "check_architecture c vs = Inr (vs @ spec_violations architecture_flags (architecture c))"
proof (cases "architecture c")
  case None
  then show ?thesis by (simp add: check_architecture_def truthy_def)
next
  case (Some arch)
  then show ?thesis
    by (simp add: check_architecture_def truthy_def check_flag_Some bind_res_Inr
        architecture_flags_def)
qed

lemma validateCompliance_eq:
  "validateCompliance c = Inr \<lparr> valid = (violations_of c = []), violations = violations_of c \<rparr>"
  by (simp add: validateCompliance_def check_unixPhilosophy_eq check_security_eq
      check_architecture_eq bind_res_Inr violations_of_def)

lemma all_messages_tables:
  "all_messages =
     map snd unixPhilosophy_flags @ map snd security_flags @ map snd architecture_flags"
  by (simp add: all_messages_def unixPhilosophy_flags_def security_flags_def
      architecture_flags_def)

lemma distinct_all_messages: "distinct all_messages"
  by (simp add: all_messages_def)

section \<open>Order, multiplicity and membership of the messages\<close>

lemma subseq_spec_violations: "subseq (spec_violations tbl obj) (map snd tbl)"
  by (cases obj) (simp_all add: subseq_map)

lemma subseq_violations_of: "subseq (violations_of c) all_messages"
  unfolding violations_of_def all_messages_tables
  by (intro list_emb_append_mono subseq_spec_violations)

lemma subseq_distinct_filter:
  "subseq xs ys \<Longrightarrow> distinct ys \<Longrightarrow> filter (\<lambda>y. y \<in> set xs) ys = xs"
proof (induction rule: list_emb.induct)
  case (list_emb_Nil ys)
  then show ?case by simp
next
  case (list_emb_Cons xs ys y)
  then have "y \<notin> set xs"
    by (auto dest: list_emb_set)
  with list_emb_Cons show ?case by simp
next
  case (list_emb_Cons2 x y xs ys)
  then have "x \<notin> set ys" by simp
  then have "filter (\<lambda>z. z = x \<or> z \<in> set xs) ys = filter (\<lambda>z. z \<in> set xs) ys"
    by (intro filter_cong) auto
  with list_emb_Cons2 show ?case by simp
qed

lemma violations_of_filter:
  "violations_of c = filter (\<lambda>m. m \<in> set (violations_of c)) all_messages"
  by (simp add: subseq_distinct_filter [OF subseq_violations_of distinct_all_messages])

lemma distinct_violations_of: "distinct (violations_of c)"
  by (subst violations_of_filter) (rule distinct_filter [OF distinct_all_messages])

lemma distinct_count_list_1: "distinct xs \<Longrightarrow> x \<in> set xs \<Longrightarrow> count_list xs x = 1"
  by (induction xs) auto

lemma spec_violations_mem:
  "msg \<in> set (spec_violations tbl obj) \<longleftrightarrow>
     (\<exists>r field. obj = Some r \<and> (field, msg) \<in> set tbl \<and> js_not (field r))"
  by (cases obj) (auto simp: image_iff)

lemma js_not_iff: "js_not v \<longleftrightarrow> v = None \<or> v = Some False"
  by (cases v) (simp_all add: js_not_def)

lemma table_field_unique:
  "distinct (map snd tbl) \<Longrightarrow> (f, m) \<in> set tbl \<Longrightarrow> (g, m) \<in> set tbl \<Longrightarrow> f = g"
  by (induction tbl) (auto simp: image_iff)

lemma distinct_tables:
  "distinct (map snd unixPhilosophy_flags)"
  "distinct (map snd security_flags)"
  "distinct (map snd architecture_flags)"
  "set (map snd unixPhilosophy_flags) \<inter> set (map snd security_flags) = {}"
  "set (map snd unixPhilosophy_flags) \<inter> set (map snd architecture_flags) = {}"
  "set (map snd security_flags) \<inter> set (map snd architecture_flags) = {}"
  using distinct_all_messages unfolding all_messages_tables distinct_append set_append
  by blast+

lemma spec_violations_subset: "set (spec_violations tbl obj) \<subseteq> set (map snd tbl)"
  using subseq_spec_violations [of tbl obj] by (auto dest: list_emb_set)

lemma spec_violations_iff:
  assumes "distinct (map snd tbl)" and "(field, msg) \<in> set tbl"
  shows "msg \<in> set (spec_violations tbl obj) \<longleftrightarrow> (\<exists>r. obj = Some r \<and> js_not (field r))"
  using assms table_field_unique [OF assms(1)] unfolding spec_violations_mem by blast

lemma violations_of_unix_iff:
  assumes "(field, msg) \<in> set unixPhilosophy_flags"
  shows "msg \<in> set (violations_of c) \<longleftrightarrow> (\<exists>r. unixPhilosophy c = Some r \<and> js_not (field r))"
proof -
  from assms have m: "msg \<in> set (map snd unixPhilosophy_flags)" by force
  with distinct_tables(4,5) have "msg \<notin> set (map snd security_flags)"
    "msg \<notin> set (map snd architecture_flags)" by blast+
  then have "msg \<notin> set (spec_violations security_flags (security c))"
    "msg \<notin> set (spec_violations architecture_flags (architecture c))"
    using spec_violations_subset by blast+
  then show ?thesis
    by (simp add: violations_of_def spec_violations_iff [OF distinct_tables(1) assms])
qed

lemma violations_of_security_iff:
  assumes "(field, msg) \<in> set security_flags"
  shows "msg \<in> set (violations_of c) \<longleftrightarrow> (\<exists>r. security c = Some r \<and> js_not (field r))"
proof -
  from assms have m: "msg \<in> set (map snd security_flags)" by force
  with distinct_tables(4,6) have "msg \<notin> set (map snd unixPhilosophy_flags)"
    "msg \<notin> set (map snd architecture_flags)" by blast+
  then have "msg \<notin> set (spec_violations unixPhilosophy_flags (unixPhilosophy c))"
    "msg \<notin> set (spec_violations architecture_flags (architecture c))"
    using spec_violations_subset by blast+
  then show ?thesis
    by (simp add: violations_of_def spec_violations_iff [OF distinct_tables(2) assms])
qed

lemma violations_of_architecture_iff:
  assumes "(field, msg) \<in> set architecture_flags"
  shows "msg \<in> set (violations_of c) \<longleftrightarrow> (\<exists>r. architecture c = Some r \<and> js_not (field r))"
proof -
  from assms have m: "msg \<in> set (map snd architecture_flags)" by force
  with distinct_tables(5,6) have "msg \<notin> set (map snd unixPhilosophy_flags)"
    "msg \<notin> set (map snd security_flags)" by blast+
  then have "msg \<notin> set (spec_violations unixPhilosophy_flags (unixPhilosophy c))"
    "msg \<notin> set (spec_violations security_flags (security c))"
    using spec_violations_subset by blast+
  then show ?thesis
    by (simp add: violations_of_def spec_violations_iff [OF distinct_tables(3) assms])
qed

lemma spec_violations_all_true:
  "(\<And>r. obj = Some r \<Longrightarrow> \<forall>(field, msg) \<in> set tbl. field r = Some True) \<Longrightarrow>
   spec_violations tbl obj = []"
  by (cases obj) (auto simp: filter_empty_conv js_not_def)

section \<open>Which flags produce a violation\<close>

text \<open>
  Claim C1, as the specification states it: a flag that is absent from a supplied
  sub-record is "not evaluated" and never produces a violation; only a flag explicitly
  set to false does; an absent sub-record contributes none.

  The code tests each flag with \<open>!\<close>, and \<open>!undefined\<close> is \<open>true\<close>: on the checklist
  whose \<open>unixPhilosophy\<close> sub-record has \<open>singleResponsibility\<close> absent and the other
  four flags true, the message of the absent flag is pushed and the result is invalid.
\<close>

theorem validateCompliance_absent_flag_counterexample:
  "validateCompliance
     \<lparr> unixPhilosophy = Some \<lparr> singleResponsibility = None, composable = Some True,
         textBasedConfig = Some True, explicitDependencies = Some True,
         minimalOutput = Some True \<rparr>,
       security = None, architecture = None \<rparr>
   = Inr \<lparr> valid = False, violations = [''Module lacks single responsibility''] \<rparr>"
  by (simp add: validateCompliance_eq violations_of_def unixPhilosophy_flags_def js_not_def)

text \<open>
  Claim C1, amended to what the code does: \<open>validateCompliance\<close> returns a result, and
  the message of a flag is among its violations exactly when the flag's sub-record is
  present and the flag is falsy there, that is absent or explicitly false.  So a flag
  set to true produces no violation, an absent sub-record contributes none, and the
  violations are messages of the fixed table only.  Under the declared type, where the
  flags of a supplied sub-record are required, the falsy flags are the explicitly false
  ones.
\<close>

theorem validateCompliance_falsy_flags:
  "\<exists>res. validateCompliance c = Inr res \<and>
     (\<forall>(field, msg) \<in> set unixPhilosophy_flags.
        msg \<in> set (violations res) \<longleftrightarrow>
        (\<exists>up. unixPhilosophy c = Some up \<and> (field up = None \<or> field up = Some False))) \<and>
     (\<forall>(field, msg) \<in> set security_flags.
        msg \<in> set (violations res) \<longleftrightarrow>
        (\<exists>sec. security c = Some sec \<and> (field sec = None \<or> field sec = Some False))) \<and>
     (\<forall>(field, msg) \<in> set architecture_flags.
        msg \<in> set (violations res) \<longleftrightarrow>
        (\<exists>arch. architecture c = Some arch \<and> (field arch = None \<or> field arch = Some False))) \<and>
     set (violations res) \<subseteq> set all_messages"
proof -
  have "set (violations_of c) \<subseteq> set all_messages"
    using subseq_violations_of [of c] by (auto dest: list_emb_set)
  then show ?thesis
    unfolding validateCompliance_eq
    by (auto simp: violations_of_unix_iff violations_of_security_iff
        violations_of_architecture_iff js_not_iff)
qed

theorem validateCompliance_falsy_flags_witness:
  "\<exists>res. validateCompliance
     \<lparr> unixPhilosophy = None,
       security = Some \<lparr> explicitPermissions = Some False, inputValidation = Some True,
         parameterizedQueries = None, multiTenantIsolation = Some True,
         defenseInDepth = Some True \<rparr>,
       architecture = None \<rparr> = Inr res \<and>
      ''Permissions are not explicit'' \<in> set (violations res) \<and>
      ''Input validation is missing'' \<notin> set (violations res) \<and>
      ''Queries are not parameterized'' \<in> set (violations res) \<and>
      ''Module is not composable'' \<notin> set (violations res) \<and>
      ''Tests not included'' \<notin> set (violations res)"
  using validateCompliance_falsy_flags
    [of "\<lparr> unixPhilosophy = None,
       security = Some \<lparr> explicitPermissions = Some False, inputValidation = Some True,
         parameterizedQueries = None, multiTenantIsolation = Some True,
         defenseInDepth = Some True \<rparr>,
       architecture = None \<rparr>"]
  by (auto simp: unixPhilosophy_flags_def security_flags_def architecture_flags_def)

section \<open>Checklists whose present flags are all true\<close>

text \<open>
  Claim C2: when every sub-record that is present has all five of its flags set to
  true, \<open>validateCompliance\<close> returns \<open>{valid: true, violations: []}\<close>.
\<close>

theorem validateCompliance_all_true:
  assumes "\<forall>up. unixPhilosophy c = Some up \<longrightarrow>
             (\<forall>(field, msg) \<in> set unixPhilosophy_flags. field up = Some True)"
    and "\<forall>sec. security c = Some sec \<longrightarrow>
             (\<forall>(field, msg) \<in> set security_flags. field sec = Some True)"
    and "\<forall>arch. architecture c = Some arch \<longrightarrow>
             (\<forall>(field, msg) \<in> set architecture_flags. field arch = Some True)"
  shows "validateCompliance c = Inr \<lparr> valid = True, violations = [] \<rparr>"
proof -
  have "spec_violations unixPhilosophy_flags (unixPhilosophy c) = []"
    using assms(1) by (intro spec_violations_all_true) blast
  moreover have "spec_violations security_flags (security c) = []"
    using assms(2) by (intro spec_violations_all_true) blast
  moreover have "spec_violations architecture_flags (architecture c) = []"
    using assms(3) by (intro spec_violations_all_true) blast
  ultimately show ?thesis
    by (simp add: validateCompliance_eq violations_of_def)
qed

theorem validateCompliance_all_true_witness:
  "validateCompliance
     \<lparr> unixPhilosophy = None,
       security = Some \<lparr> explicitPermissions = Some True, inputValidation = Some True,
         parameterizedQueries = Some True, multiTenantIsolation = Some True,
         defenseInDepth = Some True \<rparr>,
       architecture = Some \<lparr> followsHubSpoke = Some True, adrCreated = Some True,
         testsIncluded = Some True, documentationUpdated = Some True,
         performanceConsidered = Some True \<rparr> \<rparr>
   = Inr \<lparr> valid = True, violations = [] \<rparr>"
  by (rule validateCompliance_all_true)
    (simp_all add: security_flags_def architecture_flags_def)

section \<open>Checklists with a false flag\<close>

text \<open>
  Claim C3: whenever a flag of a present sub-record is false, the result is invalid and
  the message of that flag occurs exactly once among the violations; and the checklist
  whose one sub-record is \<open>security\<close>, with \<open>explicitPermissions\<close> false and the other
  four flags true, yields \<open>{valid: false, violations: ["Permissions are not explicit"]}\<close>.
\<close>

theorem validateCompliance_false_flag:
  "(\<exists>res. validateCompliance c = Inr res \<and>
     (\<forall>(field, msg) \<in> set unixPhilosophy_flags.
        (\<exists>up. unixPhilosophy c = Some up \<and> field up = Some False) \<longrightarrow>
        \<not> valid res \<and> count_list (violations res) msg = 1) \<and>
     (\<forall>(field, msg) \<in> set security_flags.
        (\<exists>sec. security c = Some sec \<and> field sec = Some False) \<longrightarrow>
        \<not> valid res \<and> count_list (violations res) msg = 1) \<and>
     (\<forall>(field, msg) \<in> set architecture_flags.
        (\<exists>arch. architecture c = Some arch \<and> field arch = Some False) \<longrightarrow>
        \<not> valid res \<and> count_list (violations res) msg = 1)) \<and>
   validateCompliance
     \<lparr> unixPhilosophy = None,
       security = Some \<lparr> explicitPermissions = Some False, inputValidation = Some True,
         parameterizedQueries = Some True, multiTenantIsolation = Some True,
         defenseInDepth = Some True \<rparr>,
       architecture = None \<rparr>
   = Inr \<lparr> valid = False, violations = [''Permissions are not explicit''] \<rparr>"
proof -
  have mem: "msg \<in> set (violations_of c) \<Longrightarrow>
      violations_of c \<noteq> [] \<and> count_list (violations_of c) msg = 1" for msg
    using distinct_count_list_1 [OF distinct_violations_of] by auto
  have general: "\<exists>res. validateCompliance c = Inr res \<and>
     (\<forall>(field, msg) \<in> set unixPhilosophy_flags.
        (\<exists>up. unixPhilosophy c = Some up \<and> field up = Some False) \<longrightarrow>
        \<not> valid res \<and> count_list (violations res) msg = 1) \<and>
     (\<forall>(field, msg) \<in> set security_flags.
        (\<exists>sec. security c = Some sec \<and> field sec = Some False) \<longrightarrow>
        \<not> valid res \<and> count_list (violations res) msg = 1) \<and>
     (\<forall>(field, msg) \<in> set architecture_flags.
        (\<exists>arch. architecture c = Some arch \<and> field arch = Some False) \<longrightarrow>
        \<not> valid res \<and> count_list (violations res) msg = 1)"
    unfolding validateCompliance_eq
    by (auto dest!: mem [OF iffD2 [OF violations_of_unix_iff]]
        mem [OF iffD2 [OF violations_of_security_iff]]
        mem [OF iffD2 [OF violations_of_architecture_iff]]
        simp: js_not_iff)
  have example: "validateCompliance
     \<lparr> unixPhilosophy = None,
       security = Some \<lparr> explicitPermissions = Some False, inputValidation = Some True,
         parameterizedQueries = Some True, multiTenantIsolation = Some True,
         defenseInDepth = Some True \<rparr>,
       architecture = None \<rparr>
   = Inr \<lparr> valid = False, violations = [''Permissions are not explicit''] \<rparr>"
    by (simp add: validateCompliance_eq violations_of_def security_flags_def js_not_def)
  from general example show ?thesis by (rule conjI)
qed

theorem validateCompliance_false_flag_witness:
  "\<exists>res. validateCompliance
     \<lparr> unixPhilosophy = None, security = None,
       architecture = Some \<lparr> followsHubSpoke = Some True, adrCreated = Some False,
         testsIncluded = Some True, documentationUpdated = Some False,
         performanceConsidered = Some True \<rparr> \<rparr> = Inr res \<and>
     \<not> valid res \<and>
     count_list (violations res) ''ADR not created for architectural change'' = 1 \<and>
     count_list (violations res) ''Documentation not updated'' = 1"
  using validateCompliance_false_flag
    [of "\<lparr> unixPhilosophy = None, security = None,
       architecture = Some \<lparr> followsHubSpoke = Some True, adrCreated = Some False,
         testsIncluded = Some True, documentationUpdated = Some False,
         performanceConsidered = Some True \<rparr> \<rparr>"]
  by (auto simp: unixPhilosophy_flags_def security_flags_def architecture_flags_def)

section \<open>The order of the violations\<close>

text \<open>
  Claim C4: the violations come in a fixed order: the messages of the Unix-philosophy
  flags first, then those of the security flags, then those of the architecture flags,
  each category in the declaration order of its flags.  The result's sequence is the
  table walk of the three categories, one after the other, and it is the fixed list of
  the fifteen messages with the messages that did not occur left out; a call on the
  same checklist returns the same result.
\<close>

theorem validateCompliance_order:
  "\<exists>res. validateCompliance c = Inr res \<and>
     violations res =
       spec_violations unixPhilosophy_flags (unixPhilosophy c) @
       spec_violations security_flags (security c) @
       spec_violations architecture_flags (architecture c) \<and>
     violations res = filter (\<lambda>msg. msg \<in> set (violations res)) all_messages \<and>
     (\<forall>c'. c' = c \<longrightarrow> validateCompliance c' = Inr res)"
proof -
  let ?res = "\<lparr> valid = (violations_of c = []), violations = violations_of c \<rparr>"
  have ret: "validateCompliance c = Inr ?res"
    by (rule validateCompliance_eq)
  have v: "violations ?res = violations_of c"
    by simp
  have walk: "violations ?res =
       spec_violations unixPhilosophy_flags (unixPhilosophy c) @
       spec_violations security_flags (security c) @
       spec_violations architecture_flags (architecture c)"
    unfolding v by (rule violations_of_def)
  have fixed: "violations ?res = filter (\<lambda>msg. msg \<in> set (violations ?res)) all_messages"
    unfolding v by (rule violations_of_filter)
  have again: "\<forall>c'. c' = c \<longrightarrow> validateCompliance c' = Inr ?res"
    using ret by blast
  from ret walk fixed again show ?thesis
    by blast
qed

theorem validateCompliance_order_witness:
  "\<exists>res. validateCompliance
     \<lparr> unixPhilosophy = Some \<lparr> singleResponsibility = Some True, composable = Some False,
         textBasedConfig = Some True, explicitDependencies = Some True,
         minimalOutput = Some False \<rparr>,
       security = Some \<lparr> explicitPermissions = Some False, inputValidation = Some True,
         parameterizedQueries = Some True, multiTenantIsolation = Some True,
         defenseInDepth = Some True \<rparr>,
       architecture = Some \<lparr> followsHubSpoke = Some True, adrCreated = Some True,
         testsIncluded = Some False, documentationUpdated = Some True,
         performanceConsidered = Some True \<rparr> \<rparr> = Inr res \<and>
     violations res =
       [''Module is not composable'', ''Output is not minimal by default'',
        ''Permissions are not explicit'', ''Tests not included'']"
  using validateCompliance_order
    [of "\<lparr> unixPhilosophy = Some \<lparr> singleResponsibility = Some True, composable = Some False,
         textBasedConfig = Some True, explicitDependencies = Some True,
         minimalOutput = Some False \<rparr>,
       security = Some \<lparr> explicitPermissions = Some False, inputValidation = Some True,
         parameterizedQueries = Some True, multiTenantIsolation = Some True,
         defenseInDepth = Some True \<rparr>,
       architecture = Some \<lparr> followsHubSpoke = Some True, adrCreated = Some True,
         testsIncluded = Some False, documentationUpdated = Some True,
         performanceConsidered = Some True \<rparr> \<rparr>"]
  by (auto simp: unixPhilosophy_flags_def security_flags_def architecture_flags_def js_not_def)

section \<open>Validity\<close>

text \<open>
  Claim C5: the \<open>valid\<close> field of the result is true if and only if the \<open>violations\<close>
  sequence of the same result is empty.
\<close>

theorem validateCompliance_valid_iff:
  "\<exists>res. validateCompliance c = Inr res \<and> (valid res \<longleftrightarrow> violations res = [])"
  by (simp add: validateCompliance_eq)

text \<open>
  Claim C6: the empty checklist, with all three sub-records absent, yields
  \<open>{valid: true, violations: []}\<close>.
\<close>

theorem validateCompliance_empty:
  "validateCompliance \<lparr> unixPhilosophy = None, security = None, architecture = None \<rparr>
   = Inr \<lparr> valid = True, violations = [] \<rparr>"
  by (simp add: validateCompliance_def check_unixPhilosophy_def check_security_def
      check_architecture_def truthy_def bind_res_def)

section \<open>The ADR factory\<close>

text \<open>
  Claim C7: for all strings \<open>id\<close> and \<open>title\<close>, the empty ones included, the ADR
  that \<open>createADR\<close> returns has the given \<open>id\<close> and \<open>title\<close>, the status
  \<open>PROPOSED\<close>, empty \<open>context\<close>, \<open>decision\<close> and \<open>rationale\<close>, empty
  \<open>alternatives\<close>, \<open>related\<close>, \<open>consequences.positive\<close> and
  \<open>consequences.negative\<close>, and no \<open>reviewDate\<close>.
\<close>

theorem createADR_fields:
  "id_adr (createADR i t) = i \<and>
   title (createADR i t) = t \<and>
   status (createADR i t) = PROPOSED \<and>
   context_adr (createADR i t) = '''' \<and>
   decision (createADR i t) = '''' \<and>
   rationale (createADR i t) = '''' \<and>
   alternatives (createADR i t) = [] \<and>
   related (createADR i t) = [] \<and>
   positive (consequences (createADR i t)) = [] \<and>
   negative (consequences (createADR i t)) = [] \<and>
   reviewDate (createADR i t) = None"
  by (simp add: createADR_def)

text \<open>
  Claim C8: \<open>createADR\<close> is deterministic: two calls with identical arguments yield
  equal ADR values, with no hidden timestamp, counter or other state outside the
  arguments influencing the result.  Stated on the call with its ambient state explicit:
  calls with the same \<open>id\<close> and \<open>title\<close> started in any two ambient states, whatever
  their clocks and counters, return equal ADRs; so do two calls made one after the
  other, the second starting in the state the first left; a call leaves the ambient
  state as it found it; and the ADR returned is the one \<open>createADR\<close> gives.
\<close>

theorem createADR_call_deterministic:
  "fst (createADR_call w i t) = fst (createADR_call w' i t) \<and>
   fst (createADR_call (snd (createADR_call w i t)) i t) = fst (createADR_call w i t) \<and>
   snd (createADR_call w i t) = w \<and>
   fst (createADR_call w i t) = createADR i t"
  by (simp add: createADR_call_def createADR_def)

section \<open>Totality\<close>

text \<open>
  Claim C9: both operations return a result on every input of their domain and never
  fail.  For \<open>validateCompliance\<close> the property reads \<open>up.flag\<close>, \<open>sec.flag\<close> and
  \<open>arch.flag\<close> are the statements that could raise; each stands under the guard
  \<open>if (checklist.category)\<close>, so the result is never the \<open>TypeError\<close>.  The body of
  \<open>createADR\<close> is an object literal over its parameters and has no statement that can
  raise, which is why its model has no error branch.
\<close>

theorem operations_total:
  "(\<exists>res. validateCompliance c = Inr res) \<and> (\<forall>e. validateCompliance c \<noteq> Inl e) \<and>
   (\<exists>adr. createADR i t = adr)"
  by (simp add: validateCompliance_eq)

section \<open>The placeholder \<open>checkUnixCompliance\<close>\<close>

text \<open>
  Claim C10: \<open>checkUnixCompliance\<close> is a constant function: whatever module record it
  is given, it returns the record with all seven flags of \<open>UnixPrinciples\<close> set to true.
\<close>

theorem checkUnixCompliance_constant:
  "checkUnixCompliance module =
     \<lparr> doOneThingWell = Some True, composable_principle = Some True, textBased = Some True,
       explicitNotMagic = Some True, minimalOutput_principle = Some True,
       securityFirst = Some True, leverageExisting = Some True \<rparr> \<and>
   checkUnixCompliance module = checkUnixCompliance module'"
  by (simp add: checkUnixCompliance_def)

end
